theory Spec2Isabelle
  imports Complex_Main
begin

section \<open>Level configuration of the LevelManager\<close>

text \<open>
  The embedding follows \<^verbatim>\<open>src/systems/LevelManager.ts\<close>. Level and floor numbers are
  TypeScript \<^verbatim>\<open>number\<close>s that the game only ever fills with integers; they are modelled
  as \<^typ>\<open>int\<close>. The quotients \<^verbatim>\<open>(levelNumber - 10) / 15\<close> and the products with them are
  taken in \<^typ>\<open>rat\<close> and floored, as \<^verbatim>\<open>Math.floor\<close> does.

  On the integer levels up to 50 the double-precision quotients and products of the source
  have the same floor as the exact ones, so the floor count of the model is the one the
  program computes.

  The class \<^verbatim>\<open>EnemySpawningSystem\<close> is imported by the source, but its file is not
  among the sources that this development covers. Its two static functions that
  \<^verbatim>\<open>getLevelConfig\<close> calls, \<^verbatim>\<open>getDifficultyBudget\<close> and \<^verbatim>\<open>getSpawnWeights\<close>, are
  parameters of the model, with result types left open.
\<close>

record ('b, 'w) LevelConfig =
  levelNumber :: int
  floorCount :: int
  enemyTypes :: "string list"
  collectibleTypes :: "string list"
  worldWidth :: int
  isEndless :: bool
  difficultyBudgetPerFloor :: 'b
  enemySpawnWeights :: 'w

definition BEAST_MODE_LEVEL :: int where
  "BEAST_MODE_LEVEL = 51"

definition MAX_PROGRESSION_LEVEL :: int where
  "MAX_PROGRESSION_LEVEL = 50"

definition calculateFloorCount :: "int \<Rightarrow> int" where
  "calculateFloorCount n =
     (if n \<ge> BEAST_MODE_LEVEL then - 1
      else if n \<le> 10 then 10 + \<lfloor>(of_int n :: rat) / 5\<rfloor>
      else if n \<le> 25 then
        (let progress = (of_int (n - 10) :: rat) / 15 in 13 + \<lfloor>progress * 5\<rfloor>)
      else if n \<le> 40 then
        (let progress = (of_int (n - 25) :: rat) / 15 in 19 + \<lfloor>progress * 6\<rfloor>)
      else
        (let progress = (of_int (n - 40) :: rat) / 10 in 25 + \<lfloor>progress * 5\<rfloor>))"

definition getEnemyTypes :: "int \<Rightarrow> string list" where
  "getEnemyTypes n = [''blue'', ''yellow'', ''green'', ''red'']"

definition getCollectibleTypes :: "int \<Rightarrow> string list" where
  "getCollectibleTypes n =
     (if n \<le> 2 then [''coin'', ''treasureChest'', ''invincibilityPendant'']
      else if n \<le> 3 then [''coin'', ''blueCoin'', ''treasureChest'', ''invincibilityPendant'']
      else if n \<le> 6 then
        [''coin'', ''blueCoin'', ''diamond'', ''freeLife'', ''invincibilityPendant'',
         ''treasureChest'']
      else
        [''coin'', ''blueCoin'', ''diamond'', ''freeLife'', ''invincibilityPendant'',
         ''treasureChest''])"

definition getWorldWidth :: "int \<Rightarrow> int" where
  "getWorldWidth n = (if n < 25 then 24 else if n < 50 then 32 else 40)"

definition getLevelConfig ::
  "(int \<Rightarrow> int \<Rightarrow> 'b) \<Rightarrow> (int \<Rightarrow> 'w) \<Rightarrow> int \<Rightarrow> ('b, 'w) LevelConfig" where
  "getLevelConfig getDifficultyBudget getSpawnWeights n =
     (let isBeastMode = (n \<ge> BEAST_MODE_LEVEL);
          configLevel = min n MAX_PROGRESSION_LEVEL;
          weights = getSpawnWeights configLevel
      in \<lparr> levelNumber = n,
           floorCount = calculateFloorCount n,
           enemyTypes = getEnemyTypes configLevel,
           collectibleTypes = getCollectibleTypes configLevel,
           worldWidth = getWorldWidth configLevel,
           isEndless = isBeastMode,
           difficultyBudgetPerFloor = getDifficultyBudget configLevel 1,
           enemySpawnWeights = weights \<rparr>)"

section \<open>Progress kept in the browser's local storage\<close>

text \<open>
  \<^verbatim>\<open>saveProgress\<close> and \<^verbatim>\<open>getFurthestLevel\<close> read and write one string under a fixed
  key of \<^verbatim>\<open>localStorage\<close>. The store is a map from keys to strings together with two
  flags: whether it can be accessed at all (every access throws otherwise) and whether a
  write still has quota (\<^verbatim>\<open>setItem\<close> throws otherwise). A thrown exception is the left
  summand of the result.

  \<^verbatim>\<open>parseInt\<close> with no radix follows the language definition: leading white space is
  skipped, a sign is read, the prefix \<^verbatim>\<open>0x\<close> selects radix 16, and the longest run of
  digits is the value; with no digit the result is NaN. \<^verbatim>\<open>toString\<close> of an integer is
  its decimal rendering. Characters stand for code units below 256, and numbers are exact
  integers: the rounding of integers beyond 2^53 and the exponent notation that
  \<^verbatim>\<open>toString\<close> switches to from 10^21 on lie outside the model.
\<close>

datatype jsnum = NaN | Num int

definition isWhiteSpace :: "char \<Rightarrow> bool" where
  "isWhiteSpace c = ((of_char c :: nat) \<in> {9, 10, 11, 12, 13, 32, 160})"

definition digitValue :: "char \<Rightarrow> nat option" where
  "digitValue c =
     (let k = (of_char c :: nat)
      in if 48 \<le> k \<and> k \<le> 57 then Some (k - 48)
         else if 97 \<le> k \<and> k \<le> 122 then Some (k - 87)
         else if 65 \<le> k \<and> k \<le> 90 then Some (k - 55)
         else None)"

definition isRadixDigit :: "nat \<Rightarrow> char \<Rightarrow> bool" where
  "isRadixDigit R c = (case digitValue c of None \<Rightarrow> False | Some d \<Rightarrow> d < R)"

definition digitsValue :: "nat \<Rightarrow> string \<Rightarrow> nat" where
  "digitsValue R Z =
     foldl (\<lambda>acc c. acc * R + (case digitValue c of None \<Rightarrow> 0 | Some d \<Rightarrow> d)) 0 Z"

definition parseInt :: "string \<Rightarrow> jsnum" where
  "parseInt inputString =
     (let S = dropWhile isWhiteSpace inputString;
          sign = (if S \<noteq> [] \<and> hd S = CHR ''-'' then - 1 else 1 :: int);
          S1 = (if S \<noteq> [] \<and> (hd S = CHR ''+'' \<or> hd S = CHR ''-'') then tl S else S);
          hex = (2 \<le> length S1 \<and> (take 2 S1 = ''0x'' \<or> take 2 S1 = ''0X''));
          R = (if hex then 16 else 10);
          S2 = (if hex then drop 2 S1 else S1);
          Z = takeWhile (isRadixDigit R) S2
      in if Z = [] then NaN else Num (sign * int (digitsValue R Z)))"

definition digitChar :: "nat \<Rightarrow> char" where
  "digitChar d = ''0123456789'' ! d"

fun digitsOf :: "nat \<Rightarrow> string" where
  "digitsOf n =
     (if n < 10 then [digitChar n]
      else digitsOf (n div 10) @ [digitChar (n mod 10)])"

declare digitsOf.simps [simp del]

definition toString :: "int \<Rightarrow> string" where
  "toString n = (if n < 0 then CHR ''-'' # digitsOf (nat (- n)) else digitsOf (nat n))"

datatype exn = SecurityError | QuotaExceededError

record Storage =
  items :: "string \<rightharpoonup> string"
  accessible :: bool
  hasQuota :: bool

definition getItem :: "Storage \<Rightarrow> string \<Rightarrow> exn + string option" where
  "getItem st k = (if accessible st then Inr (items st k) else Inl SecurityError)"

definition setItem :: "Storage \<Rightarrow> string \<Rightarrow> string \<Rightarrow> exn + Storage" where
  "setItem st k v =
     (if \<not> accessible st then Inl SecurityError
      else if \<not> hasQuota st then Inl QuotaExceededError
      else Inr (st\<lparr>items := (items st)(k \<mapsto> v)\<rparr>))"

definition orElse :: "string option \<Rightarrow> string \<Rightarrow> string" where
  "orElse v d = (case v of None \<Rightarrow> d | Some s \<Rightarrow> if s = [] then d else s)"

definition jsGreater :: "int \<Rightarrow> jsnum \<Rightarrow> bool" where
  "jsGreater x y = (case y of NaN \<Rightarrow> False | Num k \<Rightarrow> k < x)"

definition FURTHEST_KEY :: string where
  "FURTHEST_KEY = ''bizarreUnderground_furthestLevel''"

text \<open>
  The manager's only field is the current level; a session pairs it with the store.
  \<^verbatim>\<open>try { ... } catch\<close> becomes a case distinction on the sum: in
  \<^verbatim>\<open>saveProgress\<close> the handler only logs, so the session is returned as it was; in
  \<^verbatim>\<open>getFurthestLevel\<close> the handler returns 1. The result of \<^verbatim>\<open>getFurthestLevel\<close>
  keeps the sum type, so that "never throws" is a statement about it.
\<close>

record Session =
  currentLevel :: int
  localStorage :: Storage

definition newSession :: "Storage \<Rightarrow> Session" where
  "newSession st = \<lparr> currentLevel = 1, localStorage = st \<rparr>"

definition saveProgress :: "Session \<Rightarrow> Session" where
  "saveProgress s =
     (case getItem (localStorage s) FURTHEST_KEY of
        Inl e \<Rightarrow> s
      | Inr v \<Rightarrow>
          (let furthestLevel = parseInt (orElse v ''1'')
           in if jsGreater (currentLevel s) furthestLevel
              then (case setItem (localStorage s) FURTHEST_KEY (toString (currentLevel s)) of
                      Inl e \<Rightarrow> s
                    | Inr st' \<Rightarrow> s\<lparr>localStorage := st'\<rparr>)
              else s))"

definition getFurthestLevel :: "Session \<Rightarrow> exn + jsnum" where
  "getFurthestLevel s =
     (case getItem (localStorage s) FURTHEST_KEY of
        Inl e \<Rightarrow> Inr (Num 1)
      | Inr v \<Rightarrow> Inr (parseInt (orElse v ''1'')))"

definition nextLevel :: "Session \<Rightarrow> int \<times> Session" where
  "nextLevel s =
     (let s' = saveProgress (s\<lparr>currentLevel := currentLevel s + 1\<rparr>)
      in (currentLevel s', s'))"

definition resetToStart :: "Session \<Rightarrow> Session" where
  "resetToStart s = s\<lparr>currentLevel := 1\<rparr>"

definition getCurrentLevel :: "Session \<Rightarrow> int" where
  "getCurrentLevel s = currentLevel s"

definition setCurrentLevel :: "int \<Rightarrow> Session \<Rightarrow> Session" where
  "setCurrentLevel level s = saveProgress (s\<lparr>currentLevel := level\<rparr>)"

definition isBeastMode :: "Session \<Rightarrow> bool" where
  "isBeastMode s = (currentLevel s \<ge> BEAST_MODE_LEVEL)"

definition isLevelComplete ::
  "(int \<Rightarrow> int \<Rightarrow> 'b) \<Rightarrow> (int \<Rightarrow> 'w) \<Rightarrow> Session \<Rightarrow> int \<Rightarrow> bool" where
  "isLevelComplete getDifficultyBudget getSpawnWeights s currentFloor =
     (let config = getLevelConfig getDifficultyBudget getSpawnWeights (currentLevel s)
      in if isEndless config then False
         else currentFloor \<ge> floorCount config)"

text \<open>
  The public operations of the manager, as a datatype, so that a statement can range over
  every operation and over sequences of them. The queries leave the session as it is.
\<close>

datatype operation =
    NextLevel
  | ResetToStart
  | SetCurrentLevel int
  | GetCurrentLevel
  | GetFurthestLevel
  | IsBeastMode
  | IsLevelComplete int
  | GetLevelConfig int

fun exec :: "operation \<Rightarrow> Session \<Rightarrow> Session" where
  "exec NextLevel s = snd (nextLevel s)"
| "exec ResetToStart s = resetToStart s"
| "exec (SetCurrentLevel level) s = setCurrentLevel level s"
| "exec GetCurrentLevel s = s"
| "exec GetFurthestLevel s = s"
| "exec IsBeastMode s = s"
| "exec (IsLevelComplete currentFloor) s = s"
| "exec (GetLevelConfig n) s = s"

fun run :: "operation list \<Rightarrow> Session \<Rightarrow> Session" where
  "run [] s = s"
| "run (x # xs) s = run xs (exec x s)"

section \<open>The enemy selection of the spawning system\<close>







section \<open>The floor-count curve\<close>

lemma floor_tutorial: "n \<le> 10 \<Longrightarrow> calculateFloorCount n = 10 + n div 5"
proof -
  assume "n \<le> 10"
  have "\<lfloor>(of_int n :: rat) / 5\<rfloor> = n div 5"
    using floor_divide_of_int_eq [of n 5, where ?'a = rat] by simp
  with \<open>n \<le> 10\<close> show ?thesis
    by (simp add: calculateFloorCount_def BEAST_MODE_LEVEL_def)
qed

lemma floor_skill:
  assumes "10 < n" "n \<le> 25"
  shows "calculateFloorCount n = 13 + (n - 10) div 3"
proof -
  have "(of_int (n - 10) :: rat) / 15 * 5 = of_int (n - 10) / of_int 3"
    by simp
  then have "\<lfloor>(of_int (n - 10) :: rat) / 15 * 5\<rfloor> = (n - 10) div 3"
    using floor_divide_of_int_eq [of "n - 10" 3, where ?'a = rat] by presburger
  with assms show ?thesis
    by (simp add: calculateFloorCount_def BEAST_MODE_LEVEL_def Let_def)
qed

lemma floor_challenge:
  assumes "25 < n" "n \<le> 40"
  shows "calculateFloorCount n = 19 + (2 * (n - 25)) div 5"
proof -
  have "(of_int (n - 25) :: rat) / 15 * 6 = of_int (2 * (n - 25)) / of_int 5"
    by simp
  then have "\<lfloor>(of_int (n - 25) :: rat) / 15 * 6\<rfloor> = (2 * (n - 25)) div 5"
    using floor_divide_of_int_eq [of "2 * (n - 25)" 5, where ?'a = rat] by presburger
  with assms show ?thesis
    by (simp add: calculateFloorCount_def BEAST_MODE_LEVEL_def Let_def)
qed

lemma floor_master:
  assumes "40 < n" "n \<le> 50"
  shows "calculateFloorCount n = 25 + (n - 40) div 2"
proof -
  have "(of_int (n - 40) :: rat) / 10 * 5 = of_int (n - 40) / of_int 2"
    by simp
  then have "\<lfloor>(of_int (n - 40) :: rat) / 10 * 5\<rfloor> = (n - 40) div 2"
    using floor_divide_of_int_eq [of "n - 40" 2, where ?'a = rat] by presburger
  with assms show ?thesis
    by (simp add: calculateFloorCount_def BEAST_MODE_LEVEL_def Let_def)
qed

lemma floorCount_config:
  "floorCount (getLevelConfig gb gw n) = calculateFloorCount n"
  by (simp add: getLevelConfig_def Let_def)

lemma floor_upper_tutorial: "n \<le> 10 \<Longrightarrow> calculateFloorCount n \<le> 12"
  by (simp add: floor_tutorial)

lemma floor_range_tutorial:
  assumes "1 \<le> n" "n \<le> 10"
  shows "10 \<le> calculateFloorCount n \<and> calculateFloorCount n \<le> 12"
  using assms by (simp add: floor_tutorial) presburger

lemma floor_range_skill:
  assumes "11 \<le> n" "n \<le> 25"
  shows "13 \<le> calculateFloorCount n \<and> calculateFloorCount n \<le> 18"
  using assms by (simp add: floor_skill) presburger

lemma floor_range_challenge:
  assumes "26 \<le> n" "n \<le> 40"
  shows "19 \<le> calculateFloorCount n \<and> calculateFloorCount n \<le> 25"
  using assms by (simp add: floor_challenge) presburger

lemma floor_range_master:
  assumes "41 \<le> n" "n \<le> 50"
  shows "25 \<le> calculateFloorCount n \<and> calculateFloorCount n \<le> 30"
  using assms by (simp add: floor_master)

lemma floor_mono_tutorial:
  assumes "a \<le> b" "b \<le> 10"
  shows "calculateFloorCount a \<le> calculateFloorCount b"
  using assms zdiv_mono1 [of a b 5] by (simp add: floor_tutorial)

lemma floor_mono_skill:
  assumes "11 \<le> a" "a \<le> b" "b \<le> 25"
  shows "calculateFloorCount a \<le> calculateFloorCount b"
  using assms zdiv_mono1 [of "a - 10" "b - 10" 3] by (simp add: floor_skill)

lemma floor_mono_challenge:
  assumes "26 \<le> a" "a \<le> b" "b \<le> 40"
  shows "calculateFloorCount a \<le> calculateFloorCount b"
  using assms zdiv_mono1 [of "2 * (a - 25)" "2 * (b - 25)" 5] by (simp add: floor_challenge)

lemma floor_mono_master:
  assumes "41 \<le> a" "a \<le> b" "b \<le> 50"
  shows "calculateFloorCount a \<le> calculateFloorCount b"
  using assms zdiv_mono1 [of "a - 40" "b - 40" 2] by (simp add: floor_master)

lemma floor_mono:
  assumes "a \<le> b" "b \<le> 50"
  shows "calculateFloorCount a \<le> calculateFloorCount b"
proof -
  consider (t) "b \<le> 10" | (s) "11 \<le> b" "b \<le> 25" | (c) "26 \<le> b" "b \<le> 40" | (m) "41 \<le> b"
    by linarith
  then show ?thesis
  proof cases
    case t
    with assms show ?thesis by (simp add: floor_mono_tutorial)
  next
    case s
    show ?thesis
    proof (cases "a \<le> 10")
      case True
      then show ?thesis using floor_upper_tutorial [of a] floor_range_skill [OF s] by linarith
    next
      case False
      then show ?thesis using assms s by (simp add: floor_mono_skill)
    qed
  next
    case c
    consider "a \<le> 10" | "11 \<le> a" "a \<le> 25" | "26 \<le> a" by linarith
    then show ?thesis
    proof cases
      case 1
      then show ?thesis using floor_upper_tutorial [of a] floor_range_challenge [OF c] by linarith
    next
      case 2
      then show ?thesis using floor_range_skill [of a] floor_range_challenge [OF c] by linarith
    next
      case 3
      then show ?thesis using assms c by (simp add: floor_mono_challenge)
    qed
  next
    case m
    have r: "25 \<le> calculateFloorCount b" using floor_range_master [of b] m assms by simp
    consider "a \<le> 10" | "11 \<le> a" "a \<le> 25" | "26 \<le> a" "a \<le> 40" | "41 \<le> a" by linarith
    then show ?thesis
    proof cases
      case 1
      then show ?thesis using floor_upper_tutorial [of a] r by linarith
    next
      case 2
      then show ?thesis using floor_range_skill [of a] r by linarith
    next
      case 3
      then show ?thesis using floor_range_challenge [of a] r by linarith
    next
      case 4
      then show ?thesis using assms by (simp add: floor_mono_master)
    qed
  qed
qed


section \<open>The collectible palette\<close>

lemma collectibles_additive:
  "a \<le> b \<Longrightarrow> set (getCollectibleTypes a) \<subseteq> set (getCollectibleTypes b)"
  by (auto simp: getCollectibleTypes_def)

section \<open>Reading back what was written\<close>














section \<open>How the operations change the store\<close>









section \<open>Properties of the selection loop\<close>





section \<open>Claims about the level configuration\<close>

text \<open>
  C1. For every level number from 51 on, the configuration is endless with the floor count
  -1, and the difficulty budget, the spawn weights, the world width and the collectible
  palette are the ones of level 50 (whatever the two functions of the enemy spawning system
  compute).
\<close>

theorem beast_mode_config:
  assumes "51 \<le> n"
  shows "isEndless (getLevelConfig gb gw n)
       \<and> floorCount (getLevelConfig gb gw n) = - 1
       \<and> difficultyBudgetPerFloor (getLevelConfig gb gw n) = gb 50 1
       \<and> difficultyBudgetPerFloor (getLevelConfig gb gw n)
           = difficultyBudgetPerFloor (getLevelConfig gb gw 50)
       \<and> enemySpawnWeights (getLevelConfig gb gw n)
           = enemySpawnWeights (getLevelConfig gb gw 50)
       \<and> worldWidth (getLevelConfig gb gw n) = worldWidth (getLevelConfig gb gw 50)
       \<and> collectibleTypes (getLevelConfig gb gw n)
           = collectibleTypes (getLevelConfig gb gw 50)"
proof -
  have cap: "min n MAX_PROGRESSION_LEVEL = 50" "min 50 MAX_PROGRESSION_LEVEL = 50"
    using assms by (simp_all add: MAX_PROGRESSION_LEVEL_def)
  have fc: "calculateFloorCount n = - 1"
    using assms by (simp add: calculateFloorCount_def BEAST_MODE_LEVEL_def)
  show ?thesis
    using assms by (simp add: getLevelConfig_def Let_def cap fc BEAST_MODE_LEVEL_def)
qed

theorem beast_mode_config_witness:
  "(51::int) \<le> 75
   \<and> isEndless (getLevelConfig (\<lambda>l f. l * 2 + f) (\<lambda>l. [l, 100 - l]) 75)
   \<and> floorCount (getLevelConfig (\<lambda>l f. l * 2 + f) (\<lambda>l. [l, 100 - l]) 75) = - 1
   \<and> difficultyBudgetPerFloor (getLevelConfig (\<lambda>l f. l * 2 + f) (\<lambda>l. [l, 100 - l]) 75) = 101
   \<and> enemySpawnWeights (getLevelConfig (\<lambda>l f. l * 2 + f) (\<lambda>l. [l, 100 - l]) 75) = [50, 50]
   \<and> worldWidth (getLevelConfig (\<lambda>l f. l * 2 + f) (\<lambda>l. [l, 100 - l]) 75) = 40"
  using beast_mode_config [of 75 "\<lambda>l f. l * 2 + f" "\<lambda>l. [l, 100 - l]"]
  by (simp add: getLevelConfig_def Let_def MAX_PROGRESSION_LEVEL_def getWorldWidth_def)

text \<open>
  C2. For the levels 1 to 50 the floor count of the configuration lies in the range of its
  phase (1-10: 10 to 12 floors, 11-25: 13 to 18, 26-40: 19 to 25, 41-50: 25 to 30) and does
  not decrease from a level to a later level of the same phase.
\<close>

theorem floor_count_phases:
  "(1 \<le> n \<and> n \<le> 10 \<longrightarrow>
      10 \<le> floorCount (getLevelConfig gb gw n) \<and> floorCount (getLevelConfig gb gw n) \<le> 12)
   \<and> (11 \<le> n \<and> n \<le> 25 \<longrightarrow>
      13 \<le> floorCount (getLevelConfig gb gw n) \<and> floorCount (getLevelConfig gb gw n) \<le> 18)
   \<and> (26 \<le> n \<and> n \<le> 40 \<longrightarrow>
      19 \<le> floorCount (getLevelConfig gb gw n) \<and> floorCount (getLevelConfig gb gw n) \<le> 25)
   \<and> (41 \<le> n \<and> n \<le> 50 \<longrightarrow>
      25 \<le> floorCount (getLevelConfig gb gw n) \<and> floorCount (getLevelConfig gb gw n) \<le> 30)
   \<and> (a \<le> b \<and> (1 \<le> a \<and> b \<le> 10 \<or> 11 \<le> a \<and> b \<le> 25 \<or> 26 \<le> a \<and> b \<le> 40
                 \<or> 41 \<le> a \<and> b \<le> 50) \<longrightarrow>
      floorCount (getLevelConfig gb gw a) \<le> floorCount (getLevelConfig gb gw b))"
proof -
  have mono: "calculateFloorCount a \<le> calculateFloorCount b"
    if "a \<le> b" "1 \<le> a \<and> b \<le> 10 \<or> 11 \<le> a \<and> b \<le> 25 \<or> 26 \<le> a \<and> b \<le> 40 \<or> 41 \<le> a \<and> b \<le> 50"
    using that floor_mono_tutorial [of a b] floor_mono_skill [of a b]
      floor_mono_challenge [of a b] floor_mono_master [of a b]
    by blast
  show ?thesis
    unfolding floorCount_config
    using floor_range_tutorial [of n] floor_range_skill [of n] floor_range_challenge [of n]
      floor_range_master [of n] mono
    by blast
qed

theorem floor_count_phases_witness:
  "10 \<le> floorCount (getLevelConfig (\<lambda>l f. l + f) (\<lambda>l. l) 7)
   \<and> floorCount (getLevelConfig (\<lambda>l f. l + f) (\<lambda>l. l) 7) \<le> 12
   \<and> 13 \<le> floorCount (getLevelConfig (\<lambda>l f. l + f) (\<lambda>l. l) 18)
   \<and> floorCount (getLevelConfig (\<lambda>l f. l + f) (\<lambda>l. l) 18) \<le> 18
   \<and> 19 \<le> floorCount (getLevelConfig (\<lambda>l f. l + f) (\<lambda>l. l) 33)
   \<and> floorCount (getLevelConfig (\<lambda>l f. l + f) (\<lambda>l. l) 33) \<le> 25
   \<and> 25 \<le> floorCount (getLevelConfig (\<lambda>l f. l + f) (\<lambda>l. l) 46)
   \<and> floorCount (getLevelConfig (\<lambda>l f. l + f) (\<lambda>l. l) 46) \<le> 30
   \<and> floorCount (getLevelConfig (\<lambda>l f. l + f) (\<lambda>l. l) 12)
       \<le> floorCount (getLevelConfig (\<lambda>l f. l + f) (\<lambda>l. l) 24)"
  using floor_count_phases [of 7 "\<lambda>l f. l + f" "\<lambda>l. l" 12 24]
    floor_count_phases [of 18 "\<lambda>l f. l + f" "\<lambda>l. l" 12 24]
    floor_count_phases [of 33 "\<lambda>l f. l + f" "\<lambda>l. l" 12 24]
    floor_count_phases [of 46 "\<lambda>l f. l + f" "\<lambda>l. l" 12 24]
  by simp

text \<open>
  C10. Over the whole range 1 to 50 the floor count does not decrease, also from one phase
  to the next.
\<close>

theorem floor_count_global_mono:
  assumes "1 \<le> a" "a \<le> b" "b \<le> 50"
  shows "floorCount (getLevelConfig gb gw a) \<le> floorCount (getLevelConfig gb gw b)"
  unfolding floorCount_config using assms(2,3) by (rule floor_mono)

theorem floor_count_global_mono_witness:
  "(1::int) \<le> 10 \<and> (10::int) \<le> 11 \<and> (11::int) \<le> 50
   \<and> floorCount (getLevelConfig (\<lambda>l f. l + f) (\<lambda>l. l) 10)
       \<le> floorCount (getLevelConfig (\<lambda>l f. l + f) (\<lambda>l. l) 11)
   \<and> floorCount (getLevelConfig (\<lambda>l f. l + f) (\<lambda>l. l) 40)
       \<le> floorCount (getLevelConfig (\<lambda>l f. l + f) (\<lambda>l. l) 41)"
  using floor_count_global_mono [of 10 11 "\<lambda>l f. l + f" "\<lambda>l. l"]
    floor_count_global_mono [of 40 41 "\<lambda>l f. l + f" "\<lambda>l. l"]
  by simp

text \<open>
  C6. The world width of the configuration is 24 tiles below level 25, 32 tiles from level 25
  to below level 50, and 40 tiles from level 50 on; so it is 24 at level 24, 32 at the levels
  25 and 49, and 40 at level 50.
\<close>

theorem world_width_steps:
  "worldWidth (getLevelConfig gb gw n) = (if n < 25 then 24 else if n < 50 then 32 else 40)
   \<and> worldWidth (getLevelConfig gb gw 24) = 24
   \<and> worldWidth (getLevelConfig gb gw 25) = 32
   \<and> worldWidth (getLevelConfig gb gw 49) = 32
   \<and> worldWidth (getLevelConfig gb gw 50) = 40"
  by (simp add: getLevelConfig_def Let_def getWorldWidth_def MAX_PROGRESSION_LEVEL_def)

theorem world_width_steps_witness:
  "worldWidth (getLevelConfig (\<lambda>l f. l + f) (\<lambda>l. l) 3) = 24
   \<and> worldWidth (getLevelConfig (\<lambda>l f. l + f) (\<lambda>l. l) 37) = 32
   \<and> worldWidth (getLevelConfig (\<lambda>l f. l + f) (\<lambda>l. l) 1000) = 40"
  using world_width_steps [of "\<lambda>l f. l + f" "\<lambda>l. l" 3]
    world_width_steps [of "\<lambda>l f. l + f" "\<lambda>l. l" 37]
    world_width_steps [of "\<lambda>l f. l + f" "\<lambda>l. l" 1000]
  by simp

text \<open>
  C4 (the code at level 1). The palette of level 1 already holds the treasure chest and the
  invincibility pendant, which the comment above \<^verbatim>\<open>getCollectibleTypes\<close> introduces at
  level 7 and level 4.
\<close>

theorem collectibles_level_one:
  "collectibleTypes (getLevelConfig gb gw 1) = [''coin'', ''treasureChest'', ''invincibilityPendant'']
   \<and> ''treasureChest'' \<in> set (collectibleTypes (getLevelConfig gb gw 1))
   \<and> ''invincibilityPendant'' \<in> set (collectibleTypes (getLevelConfig gb gw 1))"
  by (simp add: getLevelConfig_def Let_def getCollectibleTypes_def MAX_PROGRESSION_LEVEL_def)

lemmas storage_eval =
  getFurthestLevel_def saveProgress_def getItem_def setItem_def orElse_def jsGreater_def
  FURTHEST_KEY_def parseInt_def isWhiteSpace_def isRadixDigit_def digitValue_def
  digitsValue_def toString_def digitsOf.simps digitChar_def nextLevel_def resetToStart_def
  setCurrentLevel_def newSession_def Let_def

section \<open>Claims about the persisted progress\<close>






text \<open>
  C8. \<^verbatim>\<open>resetToStart\<close> sets the current level to 1 and leaves the store, and with it the
  result of \<^verbatim>\<open>getFurthestLevel\<close>, as it was.
\<close>

theorem reset_keeps_furthest_level:
  "currentLevel (resetToStart s) = 1
   \<and> localStorage (resetToStart s) = localStorage s
   \<and> getFurthestLevel (resetToStart s) = getFurthestLevel s"
  by (simp add: resetToStart_def getFurthestLevel_def)

theorem reset_keeps_furthest_level_witness:
  "currentLevel (run [NextLevel, NextLevel, NextLevel, NextLevel, NextLevel, NextLevel,
       NextLevel, NextLevel, NextLevel]
       (newSession \<lparr> items = Map.empty, accessible = True, hasQuota = True \<rparr>)) = 10
   \<and> getFurthestLevel (run [NextLevel, NextLevel, NextLevel, NextLevel, NextLevel, NextLevel,
       NextLevel, NextLevel, NextLevel]
       (newSession \<lparr> items = Map.empty, accessible = True, hasQuota = True \<rparr>)) = Inr (Num 10)
   \<and> currentLevel (resetToStart (run [NextLevel, NextLevel, NextLevel, NextLevel, NextLevel,
       NextLevel, NextLevel, NextLevel, NextLevel]
       (newSession \<lparr> items = Map.empty, accessible = True, hasQuota = True \<rparr>))) = 1
   \<and> getFurthestLevel (resetToStart (run [NextLevel, NextLevel, NextLevel, NextLevel,
       NextLevel, NextLevel, NextLevel, NextLevel, NextLevel]
       (newSession \<lparr> items = Map.empty, accessible = True, hasQuota = True \<rparr>)))
       = Inr (Num 10)"
proof -
  let ?s = "run [NextLevel, NextLevel, NextLevel, NextLevel, NextLevel, NextLevel,
       NextLevel, NextLevel, NextLevel]
       (newSession \<lparr> items = Map.empty, accessible = True, hasQuota = True \<rparr>)"
  have "currentLevel ?s = 10" by (simp add: storage_eval)
  moreover have "getFurthestLevel ?s = Inr (Num 10)" by (simp add: storage_eval)
  ultimately show ?thesis using reset_keeps_furthest_level [of ?s] by simp
qed

text \<open>
  C9. \<^verbatim>\<open>isLevelComplete\<close> is false when the configuration of the current level is endless,
  which is the case exactly from level 51 on; otherwise it is true exactly when the current
  floor has reached the floor count of the current level.
\<close>

theorem level_complete_iff:
  "(isEndless (getLevelConfig gb gw (currentLevel s)) \<longrightarrow> \<not> isLevelComplete gb gw s f)
   \<and> (\<not> isEndless (getLevelConfig gb gw (currentLevel s)) \<longrightarrow>
        isLevelComplete gb gw s f = (floorCount (getLevelConfig gb gw (currentLevel s)) \<le> f))
   \<and> isEndless (getLevelConfig gb gw (currentLevel s)) = (51 \<le> currentLevel s)"
  by (simp add: isLevelComplete_def Let_def getLevelConfig_def BEAST_MODE_LEVEL_def)

theorem level_complete_iff_witness:
  "\<not> isLevelComplete (\<lambda>l f. l + f) (\<lambda>l. l)
       \<lparr> currentLevel = 51,
         localStorage = \<lparr> items = Map.empty, accessible = True, hasQuota = True \<rparr> \<rparr> 1000
   \<and> isLevelComplete (\<lambda>l f. l + f) (\<lambda>l. l)
       \<lparr> currentLevel = 1,
         localStorage = \<lparr> items = Map.empty, accessible = True, hasQuota = True \<rparr> \<rparr> 10
   \<and> \<not> isLevelComplete (\<lambda>l f. l + f) (\<lambda>l. l)
       \<lparr> currentLevel = 1,
         localStorage = \<lparr> items = Map.empty, accessible = True, hasQuota = True \<rparr> \<rparr> 9"
  using
    level_complete_iff [of "\<lambda>l f. l + f" "\<lambda>l. l"
      "\<lparr> currentLevel = 51,
         localStorage = \<lparr> items = Map.empty, accessible = True, hasQuota = True \<rparr> \<rparr>" 1000]
    level_complete_iff [of "\<lambda>l f. l + f" "\<lambda>l. l"
      "\<lparr> currentLevel = 1,
         localStorage = \<lparr> items = Map.empty, accessible = True, hasQuota = True \<rparr> \<rparr>" 10]
    level_complete_iff [of "\<lambda>l f. l + f" "\<lambda>l. l"
      "\<lparr> currentLevel = 1,
         localStorage = \<lparr> items = Map.empty, accessible = True, hasQuota = True \<rparr> \<rparr>" 9]
  by (simp add: floorCount_config floor_tutorial)

section \<open>Claim about the enemy selection\<close>



end
